theory Spec2Isabelle
  imports Complex_Main
begin

section \<open>JavaScript numbers\<close>

text \<open>
  A JavaScript \<open>number\<close> is modelled by a real. IEEE rounding is not modelled. A
  division by zero and a logarithm of a non-positive number leave the finite numbers
  (the source would carry \<open>Infinity\<close> or \<open>NaN\<close> on); the model stops there with the
  error \<open>NonFinite\<close>, so that such a branch is visible in every result type.
\<close>

datatype num_error = NonFinite

definition js_div :: "real \<Rightarrow> real \<Rightarrow> num_error + real" where
  "js_div a b = (if b = 0 then Inl NonFinite else Inr (a / b))"

definition js_log10 :: "real \<Rightarrow> num_error + real" where
  "js_log10 x = (if x \<le> 0 then Inl NonFinite else Inr (log 10 x))"

section \<open>Dates\<close>

text \<open>
  A \<open>Date\<close> is its time value: milliseconds since the epoch. Local time is taken to be
  a fixed zone without daylight saving (UTC), so a calendar day is 86400000 ms. The
  functions below model the \<open>Date\<close> methods and the date-fns functions the source calls.
\<close>

type_synonym Date = int

definition msPerDay :: int where
  "msPerDay = 86400000"

definition dayNumber :: "Date \<Rightarrow> int" where
  "dayNumber d = d div msPerDay"

definition startOfDay :: "Date \<Rightarrow> Date" where
  "startOfDay d = dayNumber d * msPerDay"

text \<open>\<open>getDay\<close>: 0 is Sunday; 1 January 1970 was a Thursday.\<close>

definition getDay :: "Date \<Rightarrow> int" where
  "getDay d = (dayNumber d + 4) mod 7"

text \<open>\<open>d.setDate(d.getDate() + n)\<close>: the same time of day, \<open>n\<close> days later.\<close>

definition addDays :: "Date \<Rightarrow> int \<Rightarrow> Date" where
  "addDays d n = d + n * msPerDay"

text \<open>date-fns \<open>differenceInDays\<close>: the number of full days, truncated towards zero.\<close>

definition differenceInDays :: "Date \<Rightarrow> Date \<Rightarrow> int" where
  "differenceInDays l r =
     (if r \<le> l then (l - r) div msPerDay else - ((r - l) div msPerDay))"

text \<open>The proleptic Gregorian calendar: day number to (year, month, day) and back.\<close>

type_synonym ymd = "int \<times> int \<times> int"

definition civil_from_days :: "int \<Rightarrow> ymd" where
  "civil_from_days n =
     (let z = n + 719468;
          era = z div 146097;
          doe = z mod 146097;
          yoe = (doe - doe div 1460 + doe div 36524 - doe div 146096) div 365;
          doy = doe - (365 * yoe + yoe div 4 - yoe div 100);
          mp = (5 * doy + 2) div 153;
          d = doy - (153 * mp + 2) div 5 + 1;
          m = (if mp < 10 then mp + 3 else mp - 9);
          y = yoe + era * 400
      in (if m \<le> 2 then y + 1 else y, m, d))"

definition days_from_civil :: "ymd \<Rightarrow> int" where
  "days_from_civil c =
     (case c of (y0, m, d) \<Rightarrow>
        let y = (if m \<le> 2 then y0 - 1 else y0);
            era = y div 400;
            yoe = y mod 400;
            doy = (153 * (if 2 < m then m - 3 else m + 9) + 2) div 5 + d - 1;
            doe = yoe * 365 + yoe div 4 - yoe div 100 + doy
        in era * 146097 + doe - 719468)"

text \<open>date-fns \<open>format(d, 'yyyy-MM-dd')\<close>: the calendar day of \<open>d\<close>.\<close>

definition formatYMD :: "Date \<Rightarrow> ymd" where
  "formatYMD d = civil_from_days (dayNumber d)"

text \<open>date-fns \<open>startOfMonth\<close>: the first day of the month of \<open>d\<close>, at 00:00:00.000.\<close>

definition startOfMonth :: "Date \<Rightarrow> Date" where
  "startOfMonth d =
     (case formatYMD d of (y, m, _) \<Rightarrow> days_from_civil (y, m, 1) * msPerDay)"

text \<open>date-fns \<open>endOfMonth\<close>: the last day of the month of \<open>d\<close>, at 23:59:59.999.\<close>

definition endOfMonth :: "Date \<Rightarrow> Date" where
  "endOfMonth d =
     (case formatYMD d of (y, m, _) \<Rightarrow>
        (if m = 12 then days_from_civil (y + 1, 1, 1)
         else days_from_civil (y, m + 1, 1)) * msPerDay - 1)"

section \<open>Health metrics (services/calculations.ts, contexts/HealthContext.tsx)\<close>

datatype Gender = Male | Female

datatype MeasurementUnit = Metric | Imperial

text \<open>
  \<open>calculateBodyFat\<close>, the Navy formula. The optional parameter \<open>hip\<close> is an option;
  \<open>hip ? ... : 0\<close> and \<open>!hipCm\<close> are the truthiness tests of the source (undefined and
  0 are falsy).
\<close>

definition calculateBodyFat ::
  "Gender \<Rightarrow> real \<Rightarrow> real \<Rightarrow> real \<Rightarrow> real option \<Rightarrow> MeasurementUnit \<Rightarrow> num_error + real" where
  "calculateBodyFat gender waist neck height hip unit =
     (let waistCm = (if unit = Metric then waist else waist * 2.54);
          neckCm = (if unit = Metric then neck else neck * 2.54);
          heightCm = (if unit = Metric then height else height * 2.54);
          hipCm = (case hip of
                     None \<Rightarrow> 0
                   | Some h \<Rightarrow> if h = 0 then 0 else (if unit = Metric then h else h * 2.54))
      in if gender = Male then
           (case js_log10 (waistCm - neckCm) of
              Inl e \<Rightarrow> Inl e
            | Inr lw \<Rightarrow>
                (case js_log10 heightCm of
                   Inl e \<Rightarrow> Inl e
                 | Inr lh \<Rightarrow>
                     (case js_div 495 (1.0324 - 0.19077 * lw + 0.15456 * lh) of
                        Inl e \<Rightarrow> Inl e
                      | Inr q \<Rightarrow> Inr (q - 450))))
         else if hipCm = 0 then Inr 0
         else
           (case js_log10 (waistCm + hipCm - neckCm) of
              Inl e \<Rightarrow> Inl e
            | Inr lw \<Rightarrow>
                (case js_log10 heightCm of
                   Inl e \<Rightarrow> Inl e
                 | Inr lh \<Rightarrow>
                     (case js_div 495 (1.29579 - 0.35004 * lw + 0.22100 * lh) of
                        Inl e \<Rightarrow> Inl e
                      | Inr q \<Rightarrow> Inr (q - 450)))))"

record WeightEntry =
  w_id :: string
  w_weight :: real
  w_date :: Date
  w_notes :: "string option"
  w_createdAt :: Date
  w_updatedAt :: Date

datatype Trend = Up | Down | Stable

record WeightTrend =
  trend :: Trend
  change :: real

text \<open>
  \<open>getWeightTrend\<close> reads the context's \<open>weightEntries\<close> and the clock; both are
  parameters here. \<open>cutoffDate.setDate(cutoffDate.getDate() - days)\<close> is \<open>addDays\<close>.
\<close>

definition getWeightTrend :: "WeightEntry list \<Rightarrow> Date \<Rightarrow> int \<Rightarrow> WeightTrend" where
  "getWeightTrend weightEntries now days =
     (if length weightEntries < 2 then \<lparr>trend = Stable, change = 0\<rparr>
      else
        let cutoffDate = addDays now (- days);
            recentEntries = filter (\<lambda>e. cutoffDate \<le> w_date e) weightEntries
        in if length recentEntries < 2 then \<lparr>trend = Stable, change = 0\<rparr>
           else
             let latestWeight = w_weight (recentEntries ! 0);
                 oldestWeight = w_weight (recentEntries ! (length recentEntries - 1));
                 chg = latestWeight - oldestWeight
             in \<lparr>trend = (if \<bar>chg\<bar> < 0.1 then Stable else if 0 < chg then Up else Down),
                 change = \<bar>chg\<bar>\<rparr>)"

section \<open>Finance analytics (contexts/FinanceContext.tsx, screens/finance/BudgetsScreen.tsx)\<close>

datatype TxType = Income | Expense

record Transaction =
  tx_id :: string
  tx_amount :: real
  tx_category :: string
  tx_description :: string
  tx_date :: Date
  tx_type :: TxType
  tx_createdAt :: Date
  tx_updatedAt :: Date

datatype BudgetPeriod = Monthly | Weekly

record Budget =
  b_id :: string
  b_category :: string
  b_amount :: real
  b_period :: BudgetPeriod
  b_spent :: real
  b_startDate :: Date
  b_createdAt :: Date
  b_updatedAt :: Date

text \<open>\<open>xs.reduce((sum, t) => sum + t.amount, 0)\<close>\<close>

definition sumAmounts :: "Transaction list \<Rightarrow> real" where
  "sumAmounts ts = foldl (\<lambda>sum t. sum + tx_amount t) 0 ts"

record MonthlyBalance =
  income :: real
  expenses :: real
  balance :: real

text \<open>
  \<open>getMonthlyBalance\<close> reads the context's \<open>transactions\<close> and the clock (both calls
  of \<open>new Date()\<close> are taken at the same instant \<open>now\<close>).
\<close>

definition getMonthlyBalance :: "Transaction list \<Rightarrow> Date \<Rightarrow> MonthlyBalance" where
  "getMonthlyBalance transactions now =
     (let monthStart = startOfMonth now;
          monthEnd = endOfMonth now;
          monthTransactions =
            filter (\<lambda>t. monthStart \<le> tx_date t \<and> tx_date t \<le> monthEnd) transactions;
          inc = sumAmounts (filter (\<lambda>t. tx_type t = Income) monthTransactions);
          exps = sumAmounts (filter (\<lambda>t. tx_type t = Expense) monthTransactions)
      in \<lparr>income = inc, expenses = exps, balance = inc - exps\<rparr>)"

datatype SpendingPeriod = Month | Week

text \<open>
  \<open>getCategorySpending\<close>: the result object \<open>Record<string, number>\<close> is a map;
  \<open>acc[c] || 0\<close> reads a missing (or zero) entry as 0.
\<close>

definition orZero :: "real option \<Rightarrow> real" where
  "orZero v = (case v of None \<Rightarrow> 0 | Some x \<Rightarrow> if x = 0 then 0 else x)"

definition getCategorySpending ::
  "Transaction list \<Rightarrow> Date \<Rightarrow> SpendingPeriod \<Rightarrow> (string \<rightharpoonup> real)" where
  "getCategorySpending transactions now period =
     (let start = (if period = Month then startOfMonth now else now);
          end = (if period = Month then endOfMonth now else now);
          periodTransactions =
            filter (\<lambda>t. tx_type t = Expense \<and> start \<le> tx_date t \<and> tx_date t \<le> end)
              transactions
      in foldl (\<lambda>acc t. acc(tx_category t \<mapsto> orZero (acc (tx_category t)) + tx_amount t))
           Map.empty periodTransactions)"

text \<open>
  \<open>getMonthlySpending\<close>: the period is that of the first budget of the category
  (\<open>budgets.find\<close>); \<open>budget?.period === 'weekly'\<close> is false when there is none.
\<close>

definition getMonthlySpending :: "Budget list \<Rightarrow> Transaction list \<Rightarrow> Date \<Rightarrow> string \<Rightarrow> real" where
  "getMonthlySpending budgets transactions now category =
     (let budget = find (\<lambda>b. b_category b = category) budgets;
          weekly = (case budget of None \<Rightarrow> False | Some b \<Rightarrow> b_period b = Weekly);
          weekStart = addDays now (- getDay now);
          weekEnd = addDays weekStart 6;
          periodStart = (if weekly then weekStart else startOfMonth now);
          periodEnd = (if weekly then weekEnd else endOfMonth now)
      in sumAmounts
           (filter (\<lambda>t. tx_type t = Expense \<and> tx_category t = category \<and>
                         periodStart \<le> tx_date t \<and> tx_date t \<le> periodEnd)
              transactions))"

text \<open>\<open>calculateBudgetProgress\<close> (services/calculations.ts)\<close>

definition calculateBudgetProgress :: "real \<Rightarrow> real \<Rightarrow> num_error + real" where
  "calculateBudgetProgress spent budget =
     (if budget = 0 then Inr 0
      else (case js_div spent budget of Inl e \<Rightarrow> Inl e | Inr q \<Rightarrow> Inr (q * 100)))"

record BudgetProgress =
  spent :: real
  percentage :: real
  remaining :: real

text \<open>\<open>getBudgetProgress\<close> (BudgetsScreen.tsx), over the context it reads.\<close>

definition getBudgetProgress ::
  "Budget list \<Rightarrow> Transaction list \<Rightarrow> Date \<Rightarrow> Budget \<Rightarrow> num_error + BudgetProgress" where
  "getBudgetProgress budgets transactions now budget =
     (let spent = getMonthlySpending budgets transactions now (b_category budget)
      in case (if 0 < b_amount budget
               then (case js_div spent (b_amount budget) of
                       Inl e \<Rightarrow> Inl e
                     | Inr q \<Rightarrow> Inr (q * 100))
               else Inr 0) of
           Inl e \<Rightarrow> Inl e
         | Inr pct \<Rightarrow>
             Inr \<lparr>spent = spent,
                  percentage = min pct 100,
                  remaining = max (b_amount budget - spent) 0\<rparr>)"

section \<open>Habit streaks (services/calculations.ts)\<close>

datatype Frequency = Daily

record StreakEntry =
  s_date :: Date
  s_completed :: bool

record Streak =
  current :: int
  longest :: int

record StreakVars =
  currentStreak :: int
  longestStreak :: int
  tempStreak :: int

text \<open>
  The body of the \<open>for\<close> loop of \<open>calculateStreak\<close> at index \<open>i\<close>; \<open>continue\<close> is
  the early result of the first branch.
\<close>

definition streakStep ::
  "Frequency \<Rightarrow> Date \<Rightarrow> StreakEntry list \<Rightarrow> nat \<Rightarrow> StreakVars \<Rightarrow> StreakVars" where
  "streakStep frequency lastDate sortedEntries i v =
     (let entry = sortedEntries ! i
      in if \<not> s_completed entry then
           (if i = 0 then v\<lparr>currentStreak := 0, tempStreak := 0\<rparr> else v\<lparr>tempStreak := 0\<rparr>)
         else
           let v1 =
                 (if i = 0 then
                    (let daysSinceLastEntry = differenceInDays lastDate (s_date entry)
                     in if frequency = Daily \<and> daysSinceLastEntry \<le> 1
                        then v\<lparr>currentStreak := 1, tempStreak := 1\<rparr>
                        else v\<lparr>currentStreak := 0, tempStreak := 1\<rparr>)
                  else
                    (let daysBetween =
                           differenceInDays (s_date (sortedEntries ! (i - 1))) (s_date entry)
                     in if frequency = Daily \<and> daysBetween = 1
                        then v\<lparr>tempStreak := tempStreak v + 1\<rparr>
                        else v\<lparr>tempStreak := 1\<rparr>))
           in v1\<lparr>longestStreak := max (longestStreak v1) (tempStreak v1)\<rparr>)"

function streakLoop ::
  "Frequency \<Rightarrow> Date \<Rightarrow> StreakEntry list \<Rightarrow> nat \<Rightarrow> StreakVars \<Rightarrow> StreakVars" where
  "streakLoop frequency lastDate sortedEntries i v =
     (if i < length sortedEntries
      then streakLoop frequency lastDate sortedEntries (i + 1)
             (streakStep frequency lastDate sortedEntries i v)
      else v)"
  by pat_completeness auto
termination
  by (relation "measure (\<lambda>(f, l, es, i, v). length es - i)") auto

declare streakLoop.simps [simp del]

text \<open>
  \<open>calculateStreak\<close>: \<open>Array.prototype.sort\<close> is stable, as \<open>sort_key\<close> is; the
  comparator \<open>b.date - a.date\<close> orders by descending date. \<open>lastDate = new Date()\<close> is
  the clock, a parameter here.
\<close>

definition calculateStreak :: "StreakEntry list \<Rightarrow> Frequency \<Rightarrow> Date \<Rightarrow> Streak" where
  "calculateStreak entries frequency now =
     (if length entries = 0 then \<lparr>current = 0, longest = 0\<rparr>
      else
        let sortedEntries = sort_key (\<lambda>e. - s_date e) entries;
            v = streakLoop frequency now sortedEntries 0
                  \<lparr>currentStreak = 0, longestStreak = 0, tempStreak = 0\<rparr>
        in \<lparr>current = currentStreak v, longest = longestStreak v\<rparr>)"

section \<open>Habits and their entries (contexts/HabitsContext.tsx)\<close>

record Habit =
  h_id :: string
  h_name :: string
  h_category :: string
  h_frequency :: Frequency
  h_targetCount :: int
  h_color :: string
  h_icon :: string
  h_createdAt :: Date
  h_updatedAt :: Date

record HabitEntry =
  e_id :: string
  e_habitId :: string
  e_date :: Date
  e_completed :: bool
  e_count :: int
  e_notes :: "string option"
  e_createdAt :: Date
  e_updatedAt :: Date

text \<open>A row of the table \<open>habit_entries\<close>; \<open>date\<close> is the text \<open>yyyy-MM-dd\<close>.\<close>

record HabitEntryRow =
  r_id :: string
  r_habit_id :: string
  r_date :: ymd
  r_completed :: int
  r_count :: int
  r_notes :: "string option"
  r_created_at :: Date
  r_updated_at :: Date

text \<open>
  The state the entry methods work on: the context's \<open>habits\<close> and \<open>habitEntries\<close>,
  and the database table \<open>habit_entries\<close>.
\<close>

record HabitsState =
  habits :: "Habit list"
  habitEntries :: "HabitEntry list"
  habit_entries :: "HabitEntryRow list"

datatype habit_error = HabitNotFound

text \<open>\<open>Number.prototype.toString\<close> of an integer: its decimal digits.\<close>

fun digitsOf :: "nat \<Rightarrow> string" where
  "digitsOf n =
     (if n < 10 then [char_of (48 + n)] else digitsOf (n div 10) @ [char_of (48 + n mod 10)])"

declare digitsOf.simps [simp del]

definition toString :: "int \<Rightarrow> string" where
  "toString i = (if i < 0 then CHR ''-'' # digitsOf (nat (- i)) else digitsOf (nat i))"

text \<open>
  \<open>markHabitComplete\<close>. Both clock reads (\<open>new Date()\<close>, \<open>Date.now()\<close>) are the
  instant \<open>now\<close>. The \<open>SELECT\<close> decides between \<open>UPDATE\<close> and \<open>INSERT\<close>; the context's
  list is mapped, or gets the new entry in front.
\<close>

definition markHabitComplete ::
  "HabitsState \<Rightarrow> Date \<Rightarrow> string \<Rightarrow> Date \<Rightarrow> int \<Rightarrow> habit_error + HabitsState" where
  "markHabitComplete s now habitId date cnt =
     (let dateStr = formatYMD (startOfDay date)
      in case find (\<lambda>h. h_id h = habitId) (habits s) of
           None \<Rightarrow> Inl HabitNotFound
         | Some habit \<Rightarrow>
             let isCompleted = (h_targetCount habit \<le> cnt);
                 existing = find (\<lambda>r. r_habit_id r = habitId \<and> r_date r = dateStr)
                              (habit_entries s)
             in case existing of
                  Some _ \<Rightarrow>
                    Inr (s\<lparr>habit_entries :=
                              map (\<lambda>r. if r_habit_id r = habitId \<and> r_date r = dateStr
                                        then r\<lparr>r_completed := (if isCompleted then 1 else 0),
                                               r_count := cnt, r_updated_at := now\<rparr>
                                        else r)
                                (habit_entries s),
                            habitEntries :=
                              map (\<lambda>e. if e_habitId e = habitId \<and> formatYMD (e_date e) = dateStr
                                        then e\<lparr>e_completed := isCompleted, e_count := cnt,
                                               e_updatedAt := now\<rparr>
                                        else e)
                                (habitEntries s)\<rparr>)
                | None \<Rightarrow>
                    let ident = toString now
                    in Inr (s\<lparr>habit_entries :=
                                 habit_entries s @
                                   [\<lparr>r_id = ident, r_habit_id = habitId, r_date = dateStr,
                                     r_completed = (if isCompleted then 1 else 0),
                                     r_count = cnt, r_notes = None,
                                     r_created_at = now, r_updated_at = now\<rparr>],
                               habitEntries :=
                                 \<lparr>e_id = ident, e_habitId = habitId, e_date = startOfDay date,
                                  e_completed = isCompleted, e_count = cnt, e_notes = None,
                                  e_createdAt = now, e_updatedAt = now\<rparr> # habitEntries s\<rparr>))"

text \<open>\<open>markHabitIncomplete\<close>: an \<open>UPDATE\<close> and a \<open>map\<close>, nothing else.\<close>

definition markHabitIncomplete :: "HabitsState \<Rightarrow> Date \<Rightarrow> string \<Rightarrow> Date \<Rightarrow> HabitsState" where
  "markHabitIncomplete s now habitId date =
     (let dateStr = formatYMD (startOfDay date)
      in s\<lparr>habit_entries :=
             map (\<lambda>r. if r_habit_id r = habitId \<and> r_date r = dateStr
                       then r\<lparr>r_completed := 0, r_count := 0, r_updated_at := now\<rparr>
                       else r)
               (habit_entries s),
           habitEntries :=
             map (\<lambda>e. if e_habitId e = habitId \<and> formatYMD (e_date e) = dateStr
                       then e\<lparr>e_completed := False, e_count := 0, e_updatedAt := now\<rparr>
                       else e)
               (habitEntries s)\<rparr>)"

text \<open>
  \<open>getTodaysHabits\<close>: \<open>entry?.completed || false\<close> and \<open>entry?.count || 0\<close> default a
  missing entry.
\<close>

record TodaysHabit =
  habit :: Habit
  completed :: bool
  count :: int

definition getTodaysHabits :: "HabitsState \<Rightarrow> Date \<Rightarrow> TodaysHabit list" where
  "getTodaysHabits s now =
     (let today = startOfDay now;
          todayStr = formatYMD today
      in map (\<lambda>h.
                let entry = find (\<lambda>e. e_habitId e = h_id h \<and> formatYMD (e_date e) = todayStr)
                              (habitEntries s)
                in \<lparr>habit = h,
                    completed = (case entry of None \<Rightarrow> False | Some e \<Rightarrow> e_completed e),
                    count = (case entry of None \<Rightarrow> 0 | Some e \<Rightarrow> e_count e)\<rparr>)
           (habits s))"

text \<open>
  The dashboard's progress (HabitsDashboard): \<open>habitProgressList\<close> and
  \<open>completionPercentage\<close>. A non-finite summand makes the sum non-finite.
\<close>

definition habitProgress :: "TodaysHabit \<Rightarrow> num_error + real" where
  "habitProgress h =
     (case js_div (real_of_int (count h)) (real_of_int (h_targetCount (habit h))) of
        Inl e \<Rightarrow> Inl e
      | Inr q \<Rightarrow> Inr (q * 100))"

definition habitProgressList :: "TodaysHabit list \<Rightarrow> (num_error + real) list" where
  "habitProgressList todaysHabits = map habitProgress todaysHabits"

definition addProgress :: "num_error + real \<Rightarrow> num_error + real \<Rightarrow> num_error + real" where
  "addProgress acc progress =
     (case acc of
        Inl e \<Rightarrow> Inl e
      | Inr a \<Rightarrow> (case progress of Inl e \<Rightarrow> Inl e | Inr p \<Rightarrow> Inr (a + p)))"

definition completionPercentage :: "TodaysHabit list \<Rightarrow> num_error + real" where
  "completionPercentage todaysHabits =
     (if 0 < length todaysHabits
      then (case foldl addProgress (Inr 0) (habitProgressList todaysHabits) of
              Inl e \<Rightarrow> Inl e
            | Inr acc \<Rightarrow> js_div acc (real (length todaysHabits)))
      else Inr 0)"

text \<open>
  The invariants of the entry store: \<open>completed\<close> agrees with the count and the habit's
  target, a (habit, day) pair occurs once, and the context's list and the table hold
  the same pairs.
\<close>

definition entryKey :: "HabitEntry \<Rightarrow> string \<times> ymd" where
  "entryKey e = (e_habitId e, formatYMD (e_date e))"

definition rowKey :: "HabitEntryRow \<Rightarrow> string \<times> ymd" where
  "rowKey r = (r_habit_id r, r_date r)"

definition entryConsistent :: "Habit list \<Rightarrow> HabitEntry \<Rightarrow> bool" where
  "entryConsistent hs e =
     (case find (\<lambda>h. h_id h = e_habitId e) hs of
        None \<Rightarrow> True
      | Some h \<Rightarrow> e_completed e = (h_targetCount h \<le> e_count e))"

definition rowConsistent :: "Habit list \<Rightarrow> HabitEntryRow \<Rightarrow> bool" where
  "rowConsistent hs r =
     (case find (\<lambda>h. h_id h = r_habit_id r) hs of
        None \<Rightarrow> True
      | Some h \<Rightarrow> r_completed r = (if h_targetCount h \<le> r_count r then 1 else 0))"

definition entriesInvariant :: "HabitsState \<Rightarrow> bool" where
  "entriesInvariant s =
     (list_all (entryConsistent (habits s)) (habitEntries s) \<and>
      list_all (rowConsistent (habits s)) (habit_entries s) \<and>
      distinct (map entryKey (habitEntries s)) \<and>
      distinct (map rowKey (habit_entries s)) \<and>
      set (map entryKey (habitEntries s)) = set (map rowKey (habit_entries s)))"

section \<open>Sample data\<close>

text \<open>
  Wednesday 10 January 2024, 12:00, and records built around it. The fields that no
  function reads get fixed values.
\<close>

definition sampleNow :: Date where
  "sampleNow = 1704888000000"

definition sampleTx :: "string \<Rightarrow> real \<Rightarrow> string \<Rightarrow> TxType \<Rightarrow> Date \<Rightarrow> Transaction" where
  "sampleTx i a c ty d =
     \<lparr>tx_id = i, tx_amount = a, tx_category = c, tx_description = [], tx_date = d,
      tx_type = ty, tx_createdAt = d, tx_updatedAt = d\<rparr>"

definition sampleBudget :: "real \<Rightarrow> BudgetPeriod \<Rightarrow> Budget" where
  "sampleBudget a p =
     \<lparr>b_id = ''b1'', b_category = ''food'', b_amount = a, b_period = p, b_spent = 0,
      b_startDate = 1704067200000, b_createdAt = 1704067200000,
      b_updatedAt = 1704067200000\<rparr>"

definition sampleWeight :: "string \<Rightarrow> real \<Rightarrow> Date \<Rightarrow> WeightEntry" where
  "sampleWeight i w d =
     \<lparr>w_id = i, w_weight = w, w_date = d, w_notes = None, w_createdAt = d, w_updatedAt = d\<rparr>"

definition sampleHabit :: "string \<Rightarrow> int \<Rightarrow> Habit" where
  "sampleHabit i n =
     \<lparr>h_id = i, h_name = ''Drink water'', h_category = ''health'', h_frequency = Daily,
      h_targetCount = n, h_color = ''#007AFF'', h_icon = ''water'',
      h_createdAt = 1704067200000, h_updatedAt = 1704067200000\<rparr>"

definition sampleEntry :: "string \<Rightarrow> string \<Rightarrow> Date \<Rightarrow> bool \<Rightarrow> int \<Rightarrow> HabitEntry" where
  "sampleEntry i h d c n =
     \<lparr>e_id = i, e_habitId = h, e_date = d, e_completed = c, e_count = n, e_notes = None,
      e_createdAt = d, e_updatedAt = d\<rparr>"

definition sampleRow :: "string \<Rightarrow> string \<Rightarrow> ymd \<Rightarrow> int \<Rightarrow> int \<Rightarrow> HabitEntryRow" where
  "sampleRow i h k c n =
     \<lparr>r_id = i, r_habit_id = h, r_date = k, r_completed = c, r_count = n, r_notes = None,
      r_created_at = 1704844800000, r_updated_at = 1704844800000\<rparr>"

text \<open>Two habits, each with an entry for 10 January 2024 in both stores.\<close>

definition sampleState :: HabitsState where
  "sampleState =
     \<lparr>habits = [sampleHabit ''h1'' 2, sampleHabit ''h2'' 1],
      habitEntries = [sampleEntry ''e1'' ''h1'' 1704844800000 False 1,
                      sampleEntry ''e2'' ''h2'' 1704844800000 True 1],
      habit_entries = [sampleRow ''e1'' ''h1'' (2024, 1, 10) 0 1,
                       sampleRow ''e2'' ''h2'' (2024, 1, 10) 1 1]\<rparr>"

section \<open>Helper facts\<close>

subsection \<open>Sums\<close>

lemma foldl_add_amounts:
  "foldl (\<lambda>sum t. sum + tx_amount t) a ts = a + sum_list (map tx_amount ts)"
  by (induction ts arbitrary: a) simp_all

lemma sumAmounts_sum_list: "sumAmounts ts = sum_list (map tx_amount ts)"
  by (simp add: sumAmounts_def foldl_add_amounts)

subsection \<open>The calendar at the sample instant\<close>

lemma sampleNow_month:
  "startOfMonth sampleNow = 1704067200000 \<and> endOfMonth sampleNow = 1706745599999"
  by code_simp

lemma sampleNow_ymd:
  "formatYMD (startOfDay sampleNow) = (2024, 1, 10) \<and> formatYMD 1704844800000 = (2024, 1, 10)"
  by code_simp

lemma sampleNow_tomorrow: "formatYMD (startOfDay (addDays sampleNow 1)) = (2024, 1, 11)"
  by code_simp

lemmas day_defs = dayNumber_def msPerDay_def addDays_def getDay_def startOfDay_def

subsection \<open>The streak loop\<close>

lemma streakStep_current_le_1:
  "currentStreak v \<le> 1 \<Longrightarrow> currentStreak (streakStep f l es i v) \<le> 1"
  by (simp add: streakStep_def Let_def)

lemma streakLoop_current_le_1:
  "currentStreak v \<le> 1 \<Longrightarrow> currentStreak (streakLoop f l es i v) \<le> 1"
proof (induction f l es i v rule: streakLoop.induct)
  case (1 f l es i v)
  show ?case
  proof (cases "i < length es")
    case True
    with 1 show ?thesis
      by (simp add: streakLoop.simps[of f l es i v] streakStep_current_le_1)
  next
    case False
    with 1 show ?thesis by (simp add: streakLoop.simps[of f l es i v])
  qed
qed

text \<open>\<open>currentStreak\<close> is assigned at index 0 only: the result never exceeds 1.\<close>

lemma calculateStreak_current_le_1: "current (calculateStreak entries frequency now) \<le> 1"
  by (simp add: calculateStreak_def Let_def streakLoop_current_le_1)

lemma differenceInDays_startOfDay: "differenceInDays now (startOfDay now) = 0"
  by (simp add: differenceInDays_def startOfDay_def dayNumber_def msPerDay_def
        minus_div_mult_eq_mod)

subsection \<open>Weight entries, newest first\<close>

lemma newest_first_ends:
  assumes "sorted_wrt (\<lambda>a b. w_date b \<le> w_date a) xs" and "e \<in> set xs"
  shows "w_date e \<le> w_date (xs ! 0) \<and> w_date (xs ! (length xs - 1)) \<le> w_date e"
proof -
  from assms(2) obtain i where i: "i < length xs" "xs ! i = e"
    by (auto simp: in_set_conv_nth)
  have "w_date (xs ! i) \<le> w_date (xs ! 0)"
  proof (cases "i = 0")
    case True
    then show ?thesis by simp
  next
    case False
    then have "0 < i" by simp
    from sorted_wrt_nth_less[OF assms(1) this i(1)] show ?thesis .
  qed
  moreover have "w_date (xs ! (length xs - 1)) \<le> w_date (xs ! i)"
  proof (cases "i = length xs - 1")
    case True
    then show ?thesis by simp
  next
    case False
    with i(1) have "i < length xs - 1" "length xs - 1 < length xs" by auto
    from sorted_wrt_nth_less[OF assms(1) this] show ?thesis .
  qed
  ultimately show ?thesis using i(2) by simp
qed

subsection \<open>The entry store\<close>

lemma find_row_None:
  "find (\<lambda>r. r_habit_id r = hid \<and> r_date r = ds) rows = None
     \<longleftrightarrow> (hid, ds) \<notin> set (map rowKey rows)"
  by (auto simp: find_None_iff rowKey_def)

lemma find_row_Some:
  "find (\<lambda>r. r_habit_id r = hid \<and> r_date r = ds) rows = Some r
     \<Longrightarrow> (hid, ds) \<in> set (map rowKey rows)"
  using find_row_None[of hid ds rows] by auto

lemma map_entryKey_update:
  "map entryKey
     (map (\<lambda>e. if P e then e\<lparr>e_completed := c, e_count := n, e_updatedAt := u\<rparr> else e) es)
   = map entryKey es"
  by (induction es) (simp_all add: entryKey_def)

lemma map_rowKey_update:
  "map rowKey
     (map (\<lambda>r. if P r then r\<lparr>r_completed := c, r_count := n, r_updated_at := u\<rparr> else r) rs)
   = map rowKey rs"
  by (induction rs) (simp_all add: rowKey_def)

lemma entries_update_consistent:
  assumes "list_all (entryConsistent hs) es"
    and "\<And>h. find (\<lambda>h. h_id h = hid) hs = Some h \<Longrightarrow> c = (h_targetCount h \<le> n)"
  shows "list_all (entryConsistent hs)
           (map (\<lambda>e. if e_habitId e = hid \<and> Q e
                     then e\<lparr>e_completed := c, e_count := n, e_updatedAt := u\<rparr> else e) es)"
  using assms by (induction es) (auto simp: entryConsistent_def split: option.splits)

lemma rows_update_consistent:
  assumes "list_all (rowConsistent hs) rs"
    and "\<And>h. find (\<lambda>h. h_id h = hid) hs = Some h
           \<Longrightarrow> c = (if h_targetCount h \<le> n then 1 else 0)"
  shows "list_all (rowConsistent hs)
           (map (\<lambda>r. if r_habit_id r = hid \<and> Q r
                     then r\<lparr>r_completed := c, r_count := n, r_updated_at := u\<rparr> else r) rs)"
  using assms by (induction rs) (auto simp: rowConsistent_def split: option.splits)

lemma map_if_none:
  "(\<forall>x \<in> set xs. \<not> P x) \<Longrightarrow> map (\<lambda>x. if P x then f x else x) xs = xs"
  by (induction xs) simp_all

lemma markHabitIncomplete_invariant:
  assumes inv: "entriesInvariant s" and pos: "list_all (\<lambda>h. 1 \<le> h_targetCount h) (habits s)"
  shows "entriesInvariant (markHabitIncomplete s now habitId date)"
proof -
  have tgt: "\<not> h_targetCount h \<le> 0" if "find (\<lambda>h. h_id h = habitId) (habits s) = Some h" for h
  proof -
    from that have "h \<in> set (habits s)" by (auto simp: find_Some_iff)
    with pos show ?thesis by (auto simp: list_all_iff)
  qed
  have e: "list_all (entryConsistent (habits s))
            (map (\<lambda>e. if e_habitId e = habitId \<and> formatYMD (e_date e) = formatYMD (startOfDay date)
                      then e\<lparr>e_completed := False, e_count := 0, e_updatedAt := now\<rparr> else e)
               (habitEntries s))"
    using inv tgt by (intro entries_update_consistent) (auto simp: entriesInvariant_def)
  have r: "list_all (rowConsistent (habits s))
            (map (\<lambda>r. if r_habit_id r = habitId \<and> r_date r = formatYMD (startOfDay date)
                      then r\<lparr>r_completed := 0, r_count := 0, r_updated_at := now\<rparr> else r)
               (habit_entries s))"
    using inv tgt by (intro rows_update_consistent) (auto simp: entriesInvariant_def)
  show ?thesis
    using inv e r
    by (simp add: entriesInvariant_def markHabitIncomplete_def Let_def
          map_entryKey_update map_rowKey_update del: set_map map_map)
qed

lemma markHabitComplete_invariant:
  assumes inv: "entriesInvariant s"
    and res: "markHabitComplete s now habitId date cnt = Inr s'"
  shows "entriesInvariant s'"
proof -
  let ?ds = "formatYMD (startOfDay date)"
  from res obtain h where h: "find (\<lambda>h. h_id h = habitId) (habits s) = Some h"
    by (auto simp: markHabitComplete_def Let_def split: option.splits)
  show ?thesis
  proof (cases "find (\<lambda>r. r_habit_id r = habitId \<and> r_date r = ?ds) (habit_entries s)")
    case (Some r0)
    with res h have s': "s' = s\<lparr>habit_entries :=
                              map (\<lambda>r. if r_habit_id r = habitId \<and> r_date r = ?ds
                                        then r\<lparr>r_completed := (if h_targetCount h \<le> cnt then 1 else 0),
                                               r_count := cnt, r_updated_at := now\<rparr>
                                        else r)
                                (habit_entries s),
                            habitEntries :=
                              map (\<lambda>e. if e_habitId e = habitId \<and> formatYMD (e_date e) = ?ds
                                        then e\<lparr>e_completed := (h_targetCount h \<le> cnt), e_count := cnt,
                                               e_updatedAt := now\<rparr>
                                        else e)
                                (habitEntries s)\<rparr>"
      by (simp add: markHabitComplete_def Let_def)
    have e: "list_all (entryConsistent (habits s))
            (map (\<lambda>e. if e_habitId e = habitId \<and> formatYMD (e_date e) = ?ds
                      then e\<lparr>e_completed := (h_targetCount h \<le> cnt), e_count := cnt, e_updatedAt := now\<rparr> else e)
               (habitEntries s))"
      using inv h by (intro entries_update_consistent) (auto simp: entriesInvariant_def)
    have r: "list_all (rowConsistent (habits s))
            (map (\<lambda>r. if r_habit_id r = habitId \<and> r_date r = ?ds
                      then r\<lparr>r_completed := (if h_targetCount h \<le> cnt then 1 else 0), r_count := cnt, r_updated_at := now\<rparr> else r)
               (habit_entries s))"
      using inv h by (intro rows_update_consistent) (auto simp: entriesInvariant_def)
    show ?thesis
      using inv e r unfolding s'
      by (simp add: entriesInvariant_def map_entryKey_update map_rowKey_update del: set_map map_map)
  next
    case None
    then have fresh: "(habitId, ?ds) \<notin> set (map rowKey (habit_entries s))"
      using find_row_None[of habitId ?ds "habit_entries s"] by blast
    have fresh': "(habitId, ?ds) \<notin> set (map entryKey (habitEntries s))"
      using inv fresh unfolding entriesInvariant_def by blast
    from res h None have s': "s' = s\<lparr>habit_entries :=
                                 habit_entries s @
                                   [\<lparr>r_id = toString now, r_habit_id = habitId, r_date = ?ds,
                                     r_completed = (if h_targetCount h \<le> cnt then 1 else 0),
                                     r_count = cnt, r_notes = None,
                                     r_created_at = now, r_updated_at = now\<rparr>],
                               habitEntries :=
                                 \<lparr>e_id = toString now, e_habitId = habitId, e_date = startOfDay date,
                                  e_completed = (h_targetCount h \<le> cnt), e_count = cnt, e_notes = None,
                                  e_createdAt = now, e_updatedAt = now\<rparr> # habitEntries s\<rparr>"
      by (simp add: markHabitComplete_def Let_def)
    show ?thesis
      using inv fresh fresh' h unfolding s'
      by (simp add: entriesInvariant_def entryKey_def rowKey_def entryConsistent_def rowConsistent_def del: set_map)
  qed
qed

lemma markHabitComplete_total:
  "find (\<lambda>h. h_id h = habitId) (habits s) \<noteq> None \<Longrightarrow>
     \<exists>s'. markHabitComplete s now habitId date cnt = Inr s'"
  by (auto simp: markHabitComplete_def Let_def split: option.splits)

lemma markHabitComplete_lengths:
  assumes "markHabitComplete s now habitId date cnt = Inr s'"
  shows "habits s' = habits s \<and>
     (if (habitId, formatYMD (startOfDay date)) \<in> set (map rowKey (habit_entries s))
      then length (habit_entries s') = length (habit_entries s) \<and>
           length (habitEntries s') = length (habitEntries s)
      else length (habit_entries s') = length (habit_entries s) + 1 \<and>
           length (habitEntries s') = length (habitEntries s) + 1)"
proof (cases "find (\<lambda>r. r_habit_id r = habitId \<and> r_date r = formatYMD (startOfDay date)) (habit_entries s)")
  case None
  then have "(habitId, formatYMD (startOfDay date)) \<notin> set (map rowKey (habit_entries s))"
    using find_row_None[of habitId "formatYMD (startOfDay date)" "habit_entries s"] by blast
  with assms None show ?thesis
    by (auto simp: markHabitComplete_def Let_def split: option.splits)
next
  case (Some r)
  then have "(habitId, formatYMD (startOfDay date)) \<in> set (map rowKey (habit_entries s))"
    by (rule find_row_Some)
  with assms Some show ?thesis
    by (auto simp: markHabitComplete_def Let_def split: option.splits)
qed

subsection \<open>The sample state\<close>

lemma sampleState_invariant: "entriesInvariant sampleState"
  by (simp add: entriesInvariant_def sampleState_def sampleHabit_def sampleEntry_def
        sampleRow_def entryConsistent_def rowConsistent_def entryKey_def rowKey_def
        sampleNow_ymd)

lemma sampleState_targets: "list_all (\<lambda>h. 1 \<le> h_targetCount h) (habits sampleState)"
  by (simp add: sampleState_def sampleHabit_def)

lemma sampleState_rowKeys:
  "set (map rowKey (habit_entries sampleState)) = {(''h1'', (2024, 1, 10)), (''h2'', (2024, 1, 10))}"
  by (auto simp add: sampleState_def sampleRow_def rowKey_def)

lemma sampleState_entryKeys:
  "map entryKey (habitEntries sampleState) = [(''h1'', (2024, 1, 10)), (''h2'', (2024, 1, 10))]"
  by (simp add: sampleState_def sampleEntry_def entryKey_def sampleNow_ymd)

lemma sampleState_has_h1: "find (\<lambda>h. h_id h = ''h1'') (habits sampleState) \<noteq> None"
  by (simp add: sampleState_def sampleHabit_def)

text \<open>
  In a \<open>week\<close> window \<open>getCategorySpending\<close> counts the transactions dated at the
  instant of the call and no others.
\<close>

lemma getCategorySpending_week_window:
  "getCategorySpending transactions now Week =
     getCategorySpending (filter (\<lambda>t. tx_date t = now) transactions) now Week"
  by (simp add: getCategorySpending_def Let_def conj_commute cong: conj_cong)

section \<open>Habit streak\<close>

text \<open>
  C1. The claim: with completed entries on today, today-1 and today-2 and none
  before, \<open>calculateStreak\<close> returns \<open>current = 3\<close>. The code assigns \<open>currentStreak\<close>
  at index 0 only and never counts further days (\<open>calculateStreak_current_le_1\<close>): on
  these three entries it returns \<open>current = 1\<close> and \<open>longest = 3\<close>, at every instant
  \<open>now\<close>.
\<close>

theorem calculateStreak_three_days:
  "calculateStreak
     [\<lparr>s_date = startOfDay now, s_completed = True\<rparr>,
      \<lparr>s_date = addDays (startOfDay now) (- 1), s_completed = True\<rparr>,
      \<lparr>s_date = addDays (startOfDay now) (- 2), s_completed = True\<rparr>] Daily now
   = \<lparr>current = 1, longest = 3\<rparr>"
proof -
  have d1: "differenceInDays (startOfDay now) (addDays (startOfDay now) (- 1)) = 1"
    by (simp add: differenceInDays_def addDays_def msPerDay_def)
  have d2: "differenceInDays (addDays (startOfDay now) (- 1)) (addDays (startOfDay now) (- 2)) = 1"
    by (simp add: differenceInDays_def addDays_def msPerDay_def)
  have s: "sort_key (\<lambda>e. - s_date e)
     [\<lparr>s_date = startOfDay now, s_completed = True\<rparr>,
      \<lparr>s_date = addDays (startOfDay now) (- 1), s_completed = True\<rparr>,
      \<lparr>s_date = addDays (startOfDay now) (- 2), s_completed = True\<rparr>]
    = [\<lparr>s_date = startOfDay now, s_completed = True\<rparr>,
      \<lparr>s_date = addDays (startOfDay now) (- 1), s_completed = True\<rparr>,
      \<lparr>s_date = addDays (startOfDay now) (- 2), s_completed = True\<rparr>]"
    by (simp add: addDays_def msPerDay_def)
  show ?thesis
    unfolding calculateStreak_def Let_def s
    by (simp add: streakLoop.simps streakStep_def Let_def differenceInDays_startOfDay d1 d2)
qed

section \<open>Budget progress\<close>

text \<open>
  C2. For every budget list, transaction list and instant, \<open>getBudgetProgress\<close>
  returns a result whose \<open>spent\<close> is the spending of the budget's category, whose
  \<open>remaining\<close> is \<open>max (amount - spent) 0\<close> and whose \<open>percentage\<close>, for a budget
  with a positive amount (the data model's and the budget form's condition), is
  \<open>min (spent / amount * 100) 100\<close>; the percentage never exceeds 100 and
  \<open>remaining\<close> is never negative, also when \<open>spent\<close> exceeds the amount.
\<close>

theorem getBudgetProgress_clamped:
  "\<exists>p. getBudgetProgress budgets transactions now budget = Inr p
      \<and> spent p = getMonthlySpending budgets transactions now (b_category budget)
      \<and> (0 < b_amount budget \<longrightarrow> percentage p = min (spent p / b_amount budget * 100) 100)
      \<and> remaining p = max (b_amount budget - spent p) 0
      \<and> percentage p \<le> 100 \<and> 0 \<le> remaining p"
  by (simp add: getBudgetProgress_def js_div_def Let_def)

theorem getBudgetProgress_clamped_witness:
  "0 < b_amount (sampleBudget 200 Monthly)
   \<and> getBudgetProgress [sampleBudget 200 Monthly]
        [sampleTx ''t1'' 100 ''food'' Expense 1704412800000,
         sampleTx ''t2'' 50 ''food'' Expense 1704499200000]
        sampleNow (sampleBudget 200 Monthly)
      = Inr \<lparr>spent = 150, percentage = 75, remaining = 50\<rparr>
   \<and> getBudgetProgress [sampleBudget 200 Monthly]
        [sampleTx ''t1'' 100 ''food'' Expense 1704412800000,
         sampleTx ''t2'' 150 ''food'' Expense 1704499200000]
        sampleNow (sampleBudget 200 Monthly)
      = Inr \<lparr>spent = 250, percentage = 100, remaining = 0\<rparr>"
  using getBudgetProgress_clamped [of "[sampleBudget 200 Monthly]"
        "[sampleTx ''t1'' 100 ''food'' Expense 1704412800000,
          sampleTx ''t2'' 50 ''food'' Expense 1704499200000]" sampleNow "sampleBudget 200 Monthly"]
    getBudgetProgress_clamped [of "[sampleBudget 200 Monthly]"
        "[sampleTx ''t1'' 100 ''food'' Expense 1704412800000,
          sampleTx ''t2'' 150 ''food'' Expense 1704499200000]" sampleNow "sampleBudget 200 Monthly"]
  by (simp add: getBudgetProgress_def js_div_def getMonthlySpending_def sumAmounts_def
        sampleBudget_def sampleTx_def sampleNow_month Let_def)

section \<open>Monthly balance\<close>

text \<open>
  C3. For every transaction list and instant, \<open>getMonthlyBalance\<close> returns as
  \<open>income\<close> the sum of the amounts of the income transactions dated within
  \<open>[startOfMonth now, endOfMonth now]\<close>, bounds included, as \<open>expenses\<close> the same sum
  over the expense transactions, and \<open>balance = income - expenses\<close>; a transaction
  dated outside the month changes nothing.
\<close>

theorem getMonthlyBalance_sums:
  "income (getMonthlyBalance transactions now) =
     sum_list (map tx_amount (filter (\<lambda>t. tx_type t = Income \<and>
        startOfMonth now \<le> tx_date t \<and> tx_date t \<le> endOfMonth now) transactions))
   \<and> expenses (getMonthlyBalance transactions now) =
     sum_list (map tx_amount (filter (\<lambda>t. tx_type t = Expense \<and>
        startOfMonth now \<le> tx_date t \<and> tx_date t \<le> endOfMonth now) transactions))
   \<and> balance (getMonthlyBalance transactions now) =
       income (getMonthlyBalance transactions now) - expenses (getMonthlyBalance transactions now)
   \<and> (tx_date t < startOfMonth now \<or> endOfMonth now < tx_date t \<longrightarrow>
        getMonthlyBalance (xs @ t # ys) now = getMonthlyBalance (xs @ ys) now)"
  by (auto simp add: getMonthlyBalance_def sumAmounts_sum_list Let_def conj_commute cong: conj_cong)

theorem getMonthlyBalance_sums_witness:
  "tx_date (sampleTx ''t4'' 70 ''food'' Expense 1703980800000) < startOfMonth sampleNow
   \<and> getMonthlyBalance
        ([sampleTx ''t0'' 3000 ''salary'' Income 1704153600000,
          sampleTx ''t1'' 100 ''food'' Expense 1704412800000]
         @ sampleTx ''t4'' 70 ''food'' Expense 1703980800000
         # [sampleTx ''t2'' 50 ''food'' Expense 1704499200000]) sampleNow
     = getMonthlyBalance
        ([sampleTx ''t0'' 3000 ''salary'' Income 1704153600000,
          sampleTx ''t1'' 100 ''food'' Expense 1704412800000]
         @ [sampleTx ''t2'' 50 ''food'' Expense 1704499200000]) sampleNow
   \<and> getMonthlyBalance
        ([sampleTx ''t0'' 3000 ''salary'' Income 1704153600000,
          sampleTx ''t1'' 100 ''food'' Expense 1704412800000]
         @ sampleTx ''t4'' 70 ''food'' Expense 1703980800000
         # [sampleTx ''t2'' 50 ''food'' Expense 1704499200000]) sampleNow
     = \<lparr>income = 3000, expenses = 150, balance = 2850\<rparr>"
  using getMonthlyBalance_sums [of
        "[sampleTx ''t0'' 3000 ''salary'' Income 1704153600000,
          sampleTx ''t1'' 100 ''food'' Expense 1704412800000]
         @ sampleTx ''t4'' 70 ''food'' Expense 1703980800000
         # [sampleTx ''t2'' 50 ''food'' Expense 1704499200000]" sampleNow
        "sampleTx ''t4'' 70 ''food'' Expense 1703980800000"
        "[sampleTx ''t0'' 3000 ''salary'' Income 1704153600000,
          sampleTx ''t1'' 100 ''food'' Expense 1704412800000]"
        "[sampleTx ''t2'' 50 ''food'' Expense 1704499200000]"]
  by (simp add: getMonthlyBalance_def sumAmounts_def sampleTx_def sampleNow_month Let_def)

section \<open>Category spending\<close>

text \<open>
  C4. The claim: for period \<open>week\<close>, \<open>getCategorySpending\<close> sums the expenses of the
  current Sunday-start week. The code takes \<open>new Date()\<close> for both ends of the window.
  On Wednesday 10 January 2024, 12:00, an expense of 50 on food made on Monday
  8 January, 09:00, lies in the week that \<open>getMonthlySpending\<close> computes for a weekly
  budget (Sunday 7 January, 12:00, and six days on) and is counted there, and
  \<open>getCategorySpending\<close> for \<open>week\<close> returns the empty map.
\<close>

theorem getCategorySpending_week_is_instant:
  "getCategorySpending [sampleTx ''t3'' 50 ''food'' Expense 1704704400000] sampleNow Week
     = Map.empty
   \<and> getMonthlySpending [sampleBudget 200 Weekly]
        [sampleTx ''t3'' 50 ''food'' Expense 1704704400000] sampleNow ''food'' = 50
   \<and> addDays sampleNow (- getDay sampleNow) \<le> 1704704400000
   \<and> 1704704400000 \<le> addDays (addDays sampleNow (- getDay sampleNow)) 6"
  by (simp add: getCategorySpending_def getMonthlySpending_def sumAmounts_def sampleBudget_def
        sampleTx_def sampleNow_def day_defs Let_def)

section \<open>Dashboard progress\<close>

text \<open>
  C5. The claim: the dashboard percentage is the average of
  \<open>min (count / targetCount) 1 * 100\<close>, so that one habit contributes at most 100. The
  code does not clamp: one habit with \<open>targetCount = 2\<close> and \<open>count = 5\<close> gives 250.
\<close>

theorem completionPercentage_exceeds_100:
  "completionPercentage [\<lparr>habit = sampleHabit ''h1'' 2, completed = True, count = 5\<rparr>]
     = Inr 250"
  by (simp add: completionPercentage_def habitProgressList_def habitProgress_def
        addProgress_def js_div_def sampleHabit_def)

section \<open>The entry store keeps its invariants\<close>

text \<open>
  C6. In a state whose stores satisfy \<open>entriesInvariant\<close> (every entry and row has
  \<open>completed = (targetCount \<le> count)\<close> for its habit, a (habit, day) pair occurs at
  most once in each store, and both stores hold the same pairs) and whose habits have
  a target of at least 1: \<open>markHabitComplete\<close> succeeds whenever the habit exists; its
  result satisfies the invariant again, with as many rows and entries as before when a
  row for the pair existed and one more of each otherwise; and the result of
  \<open>markHabitIncomplete\<close> satisfies the invariant.
\<close>

theorem habit_entry_writes_preserve_invariant:
  assumes "entriesInvariant s"
    and "list_all (\<lambda>h. 1 \<le> h_targetCount h) (habits s)"
  shows "(find (\<lambda>h. h_id h = habitId) (habits s) \<noteq> None \<longrightarrow>
            (\<exists>s'. markHabitComplete s now habitId date cnt = Inr s'))
       \<and> (\<forall>s'. markHabitComplete s now habitId date cnt = Inr s' \<longrightarrow>
            entriesInvariant s' \<and> habits s' = habits s \<and>
            (if (habitId, formatYMD (startOfDay date)) \<in> set (map rowKey (habit_entries s))
             then length (habit_entries s') = length (habit_entries s) \<and>
                  length (habitEntries s') = length (habitEntries s)
             else length (habit_entries s') = length (habit_entries s) + 1 \<and>
                  length (habitEntries s') = length (habitEntries s) + 1))
       \<and> entriesInvariant (markHabitIncomplete s now habitId date)"
  using assms markHabitComplete_total[of habitId s now date cnt]
    markHabitComplete_invariant[of s now habitId date cnt]
    markHabitComplete_lengths[of s now habitId date cnt]
    markHabitIncomplete_invariant[of s now habitId date]
  by blast

theorem habit_entry_writes_preserve_invariant_witness:
  "entriesInvariant sampleState
   \<and> list_all (\<lambda>h. 1 \<le> h_targetCount h) (habits sampleState)
   \<and> (\<exists>s'. markHabitComplete sampleState sampleNow ''h1'' sampleNow 2 = Inr s'
          \<and> entriesInvariant s' \<and> length (habit_entries s') = 2 \<and> length (habitEntries s') = 2)
   \<and> (\<exists>s'. markHabitComplete sampleState sampleNow ''h1'' (addDays sampleNow 1) 1 = Inr s'
          \<and> entriesInvariant s' \<and> length (habit_entries s') = 3 \<and> length (habitEntries s') = 3)
   \<and> entriesInvariant (markHabitIncomplete sampleState sampleNow ''h1'' sampleNow)"
proof -
  note inv = sampleState_invariant and tg = sampleState_targets
  have len: "length (habit_entries sampleState) = 2" "length (habitEntries sampleState) = 2"
    by (simp_all add: sampleState_def)
  have k1: "(''h1'', formatYMD (startOfDay sampleNow)) \<in> set (map rowKey (habit_entries sampleState))"
    unfolding sampleState_rowKeys by (simp add: sampleNow_ymd)
  have k2: "(''h1'', formatYMD (startOfDay (addDays sampleNow 1)))
              \<notin> set (map rowKey (habit_entries sampleState))"
    unfolding sampleState_rowKeys by (simp add: sampleNow_tomorrow)
  from habit_entry_writes_preserve_invariant [OF inv tg, of "''h1''" sampleNow sampleNow 2]
    sampleState_has_h1 k1 len
  have a: "\<exists>s'. markHabitComplete sampleState sampleNow ''h1'' sampleNow 2 = Inr s'
          \<and> entriesInvariant s' \<and> length (habit_entries s') = 2 \<and> length (habitEntries s') = 2"
    by (simp del: set_map) metis
  from habit_entry_writes_preserve_invariant [OF inv tg, of "''h1''" sampleNow "addDays sampleNow 1" 1]
    sampleState_has_h1 k2 len
  have b: "\<exists>s'. markHabitComplete sampleState sampleNow ''h1'' (addDays sampleNow 1) 1 = Inr s'
          \<and> entriesInvariant s' \<and> length (habit_entries s') = 3 \<and> length (habitEntries s') = 3"
    by (simp del: set_map) metis
  from habit_entry_writes_preserve_invariant [OF inv tg, of "''h1''" sampleNow sampleNow 2]
  have c: "entriesInvariant (markHabitIncomplete sampleState sampleNow ''h1'' sampleNow)"
    by blast
  from inv tg a b c show ?thesis by blast
qed

section \<open>Body fat: the missing-hip sentinel\<close>

text \<open>
  C7. For every waist, neck, height and unit, \<open>calculateBodyFat\<close> for gender female
  with \<open>hip\<close> absent returns the sentinel 0; it does not fail.
\<close>

theorem calculateBodyFat_female_no_hip:
  "calculateBodyFat Female waist neck height None unit = Inr 0"
  by (simp add: calculateBodyFat_def)

section \<open>Weight trend\<close>

text \<open>
  C8. Let the window be the entries dated at or after \<open>now\<close> minus \<open>days\<close> days.
  With fewer than two entries in the window \<open>getWeightTrend\<close> returns \<open>stable\<close> and 0.
  Otherwise, with \<open>chg\<close> the weight of the first entry of the window minus that of
  the last, it returns \<open>stable\<close> when \<open>\<bar>chg\<bar> < 0.1\<close>, else \<open>up\<close> when \<open>chg\<close> is
  positive, else \<open>down\<close>, and \<open>\<bar>chg\<bar>\<close> as the change, which is never negative. In a
  list ordered newest first, the first entry of the window is its newest and the last
  its oldest.
\<close>

theorem getWeightTrend_window:
  "let window = filter (\<lambda>e. addDays now (- days) \<le> w_date e) weightEntries;
       newest = window ! 0;
       oldest = window ! (length window - 1);
       chg = w_weight newest - w_weight oldest
   in (length window < 2 \<longrightarrow>
         getWeightTrend weightEntries now days = \<lparr>trend = Stable, change = 0\<rparr>)
    \<and> (2 \<le> length window \<longrightarrow>
         getWeightTrend weightEntries now days =
           \<lparr>trend = (if \<bar>chg\<bar> < 0.1 then Stable else if 0 < chg then Up else Down),
            change = \<bar>chg\<bar>\<rparr>
         \<and> 0 \<le> change (getWeightTrend weightEntries now days))
    \<and> (sorted_wrt (\<lambda>a b. w_date b \<le> w_date a) weightEntries \<longrightarrow>
         (\<forall>e \<in> set window. w_date e \<le> w_date newest \<and> w_date oldest \<le> w_date e))"
proof -
  define window where "window = filter (\<lambda>e. addDays now (- days) \<le> w_date e) weightEntries"
  have len: "length window \<le> length weightEntries"
    by (simp add: window_def)
  have a: "getWeightTrend weightEntries now days = \<lparr>trend = Stable, change = 0\<rparr>"
    if "length window < 2"
    using that len by (simp add: getWeightTrend_def Let_def window_def)
  have b: "getWeightTrend weightEntries now days =
           \<lparr>trend = (if \<bar>w_weight (window ! 0) - w_weight (window ! (length window - 1))\<bar> < 0.1
                      then Stable
                      else if 0 < w_weight (window ! 0) - w_weight (window ! (length window - 1))
                      then Up else Down),
            change = \<bar>w_weight (window ! 0) - w_weight (window ! (length window - 1))\<bar>\<rparr>"
    if "2 \<le> length window"
  proof -
    have n1: "\<not> length weightEntries < 2" using that len by simp
    have n2: "\<not> length window < 2" using that by simp
    show ?thesis
      unfolding getWeightTrend_def Let_def window_def[symmetric]
      by (simp only: n1 n2 if_False)
  qed
  have c: "w_date e \<le> w_date (window ! 0) \<and> w_date (window ! (length window - 1)) \<le> w_date e"
    if "sorted_wrt (\<lambda>a b. w_date b \<le> w_date a) weightEntries" "e \<in> set window" for e
  proof -
    from that(1) have "sorted_wrt (\<lambda>a b. w_date b \<le> w_date a) window"
      unfolding window_def by (rule sorted_wrt_filter)
    from newest_first_ends[OF this that(2)] show ?thesis .
  qed
  show ?thesis
    unfolding Let_def window_def[symmetric]
    using a b c by auto
qed

theorem getWeightTrend_window_witness:
  "sorted_wrt (\<lambda>a b. w_date b \<le> w_date a)
     [sampleWeight ''w1'' 70.5 1704801600000, sampleWeight ''w2'' 70 1704628800000,
      sampleWeight ''w3'' 72 1704024000000]
   \<and> 2 \<le> length (filter (\<lambda>e. addDays sampleNow (- 7) \<le> w_date e)
          [sampleWeight ''w1'' 70.5 1704801600000, sampleWeight ''w2'' 70 1704628800000,
           sampleWeight ''w3'' 72 1704024000000])
   \<and> getWeightTrend
        [sampleWeight ''w1'' 70.5 1704801600000, sampleWeight ''w2'' 70 1704628800000,
         sampleWeight ''w3'' 72 1704024000000] sampleNow 7
      = \<lparr>trend = Up, change = 0.5\<rparr>
   \<and> length (filter (\<lambda>e. addDays sampleNow (- 7) \<le> w_date e)
          [sampleWeight ''w1'' 70.5 1704801600000, sampleWeight ''w3'' 72 1704024000000]) < 2
   \<and> getWeightTrend
        [sampleWeight ''w1'' 70.5 1704801600000, sampleWeight ''w3'' 72 1704024000000]
        sampleNow 7
      = \<lparr>trend = Stable, change = 0\<rparr>"
  using getWeightTrend_window [of sampleNow 7
          "[sampleWeight ''w1'' 70.5 1704801600000, sampleWeight ''w2'' 70 1704628800000,
            sampleWeight ''w3'' 72 1704024000000]"]
        getWeightTrend_window [of sampleNow 7
          "[sampleWeight ''w1'' 70.5 1704801600000, sampleWeight ''w3'' 72 1704024000000]"]
  by (simp add: getWeightTrend_def sampleWeight_def sampleNow_def addDays_def msPerDay_def Let_def)

section \<open>Budget progress: amount zero\<close>

text \<open>
  C9. \<open>calculateBudgetProgress\<close> returns 0 for a budget of 0 and a finite number for
  every input; \<open>getBudgetProgress\<close> returns a result for every input (the branch
  \<open>NonFinite\<close> is not reachable), and for a budget whose amount is 0 the percentage is
  0 and, the spending not being negative, so is \<open>remaining\<close>.
\<close>

theorem budget_progress_zero_amount:
  "calculateBudgetProgress sp 0 = Inr 0
   \<and> (\<exists>pct. calculateBudgetProgress sp amount = Inr pct)
   \<and> (\<exists>p. getBudgetProgress budgets transactions now b = Inr p
          \<and> (b_amount b = 0 \<longrightarrow>
                percentage p = 0 \<and> (0 \<le> spent p \<longrightarrow> remaining p = 0)))"
  by (simp add: calculateBudgetProgress_def getBudgetProgress_def js_div_def Let_def)

theorem budget_progress_zero_amount_witness:
  "b_amount (sampleBudget 0 Monthly) = 0
   \<and> getBudgetProgress [sampleBudget 0 Monthly]
        [sampleTx ''t1'' 100 ''food'' Expense 1704412800000] sampleNow (sampleBudget 0 Monthly)
      = Inr \<lparr>spent = 100, percentage = 0, remaining = 0\<rparr>
   \<and> calculateBudgetProgress 100 0 = Inr 0"
  using budget_progress_zero_amount [of 100 0 "[sampleBudget 0 Monthly]"
        "[sampleTx ''t1'' 100 ''food'' Expense 1704412800000]" sampleNow "sampleBudget 0 Monthly"]
  by (simp add: getBudgetProgress_def calculateBudgetProgress_def getMonthlySpending_def
        sumAmounts_def sampleBudget_def sampleTx_def sampleNow_month Let_def)

section \<open>markHabitIncomplete: what it leaves alone\<close>

text \<open>
  C10. \<open>markHabitIncomplete\<close> never changes the habits nor the number of entries
  or rows; an entry or row of another habit or another day is the same afterwards; and
  when neither store holds the (habit, day) pair, the state is unchanged.
\<close>

theorem markHabitIncomplete_frame:
  "habits (markHabitIncomplete s now habitId date) = habits s
   \<and> length (habitEntries (markHabitIncomplete s now habitId date)) = length (habitEntries s)
   \<and> length (habit_entries (markHabitIncomplete s now habitId date)) = length (habit_entries s)
   \<and> (\<forall>i < length (habitEntries s).
         entryKey (habitEntries s ! i) \<noteq> (habitId, formatYMD (startOfDay date)) \<longrightarrow>
         habitEntries (markHabitIncomplete s now habitId date) ! i = habitEntries s ! i)
   \<and> (\<forall>i < length (habit_entries s).
         rowKey (habit_entries s ! i) \<noteq> (habitId, formatYMD (startOfDay date)) \<longrightarrow>
         habit_entries (markHabitIncomplete s now habitId date) ! i = habit_entries s ! i)
   \<and> ((habitId, formatYMD (startOfDay date)) \<notin> set (map entryKey (habitEntries s)) \<and>
       (habitId, formatYMD (startOfDay date)) \<notin> set (map rowKey (habit_entries s)) \<longrightarrow>
         markHabitIncomplete s now habitId date = s)"
proof -
  let ?k = "(habitId, formatYMD (startOfDay date))"
  have e: "habitEntries (markHabitIncomplete s now habitId date) =
      map (\<lambda>e. if entryKey e = ?k
                then e\<lparr>e_completed := False, e_count := 0, e_updatedAt := now\<rparr> else e)
        (habitEntries s)"
    by (simp add: markHabitIncomplete_def Let_def entryKey_def)
  have r: "habit_entries (markHabitIncomplete s now habitId date) =
      map (\<lambda>r. if rowKey r = ?k
                then r\<lparr>r_completed := 0, r_count := 0, r_updated_at := now\<rparr> else r)
        (habit_entries s)"
    by (simp add: markHabitIncomplete_def Let_def rowKey_def)
  have h: "habits (markHabitIncomplete s now habitId date) = habits s"
    by (simp add: markHabitIncomplete_def Let_def)
  have m: "HabitsState.more (markHabitIncomplete s now habitId date) = HabitsState.more s"
    by (simp add: markHabitIncomplete_def Let_def)
  have unchanged: "markHabitIncomplete s now habitId date = s"
    if "?k \<notin> set (map entryKey (habitEntries s))" "?k \<notin> set (map rowKey (habit_entries s))"
  proof -
    have "habitEntries (markHabitIncomplete s now habitId date) = habitEntries s"
      unfolding e using that(1) by (intro map_if_none) force
    moreover have "habit_entries (markHabitIncomplete s now habitId date) = habit_entries s"
      unfolding r using that(2) by (intro map_if_none) force
    ultimately show ?thesis using h m by (intro HabitsState.equality) simp_all
  qed
  show ?thesis
    using h unchanged by (simp add: e r)
qed

theorem markHabitIncomplete_frame_witness:
  "1 < length (habitEntries sampleState)
   \<and> entryKey (habitEntries sampleState ! 1) \<noteq> (''h1'', formatYMD (startOfDay sampleNow))
   \<and> habitEntries (markHabitIncomplete sampleState sampleNow ''h1'' sampleNow) ! 1
       = habitEntries sampleState ! 1
   \<and> 1 < length (habit_entries sampleState)
   \<and> rowKey (habit_entries sampleState ! 1) \<noteq> (''h1'', formatYMD (startOfDay sampleNow))
   \<and> habit_entries (markHabitIncomplete sampleState sampleNow ''h1'' sampleNow) ! 1
       = habit_entries sampleState ! 1
   \<and> (''h3'', formatYMD (startOfDay sampleNow)) \<notin> set (map entryKey (habitEntries sampleState))
   \<and> (''h3'', formatYMD (startOfDay sampleNow)) \<notin> set (map rowKey (habit_entries sampleState))
   \<and> markHabitIncomplete sampleState sampleNow ''h3'' sampleNow = sampleState"
proof -
  have l: "1 < length (habitEntries sampleState)" "1 < length (habit_entries sampleState)"
    by (simp_all add: sampleState_def)
  have k: "entryKey (habitEntries sampleState ! 1) \<noteq> (''h1'', formatYMD (startOfDay sampleNow))"
    "rowKey (habit_entries sampleState ! 1) \<noteq> (''h1'', formatYMD (startOfDay sampleNow))"
    by (simp_all add: sampleState_def sampleEntry_def sampleRow_def entryKey_def rowKey_def)
  have n: "(''h3'', formatYMD (startOfDay sampleNow)) \<notin> set (map entryKey (habitEntries sampleState))"
    "(''h3'', formatYMD (startOfDay sampleNow)) \<notin> set (map rowKey (habit_entries sampleState))"
    unfolding sampleState_rowKeys sampleState_entryKeys by simp_all
  from markHabitIncomplete_frame [of sampleState sampleNow "''h1''" sampleNow] l k
  have a: "habitEntries (markHabitIncomplete sampleState sampleNow ''h1'' sampleNow) ! 1
             = habitEntries sampleState ! 1"
    "habit_entries (markHabitIncomplete sampleState sampleNow ''h1'' sampleNow) ! 1
             = habit_entries sampleState ! 1"
    by blast+
  from markHabitIncomplete_frame [of sampleState sampleNow "''h3''" sampleNow] n
  have b: "markHabitIncomplete sampleState sampleNow ''h3'' sampleNow = sampleState"
    by blast
  from l k n a b show ?thesis by blast
qed

end
